theory Spec2Isabelle
  imports Main "HOL-Library.AList" "HOL-Library.Sublist"
begin

section \<open>Signed tokens\<close>

text \<open>
  The middleware of \<^verbatim>\<open>middleware.go\<close> keeps all of its state in two kinds of signed
  JSON Web Tokens held by the browser. The JWT library (\<^verbatim>\<open>dgrijalva/jwt-go\<close>) is a
  dependency of the program; the part of it that the middleware calls is written out
  here, at the level of decoded values:

  \<^item> a JSON object is an association list read with \<open>map_of\<close>;
  \<^item> a compact token that splits into three segments which decode is
    \<open>Compact header claims signature\<close>, any other cookie value is \<open>Raw s\<close>
    (the empty string is \<open>Raw []\<close>);
  \<^item> the MAC is symbolic, in the manner of the protocol models of Paulson: \<open>HMAC h k hdr cl\<close> is the
    HMAC with hash \<open>h\<close> and key \<open>k\<close> of the signing string of header \<open>hdr\<close> and claims
    \<open>cl\<close>, and two MACs are equal only when hash, key and signing string are.
\<close>

datatype json =
    JNull
  | JBool bool
  | JNumber int
  | JString string
  | JArray "json list"
  | JObject "(string \<times> json) list"

type_synonym json_object = "(string \<times> json) list"

type_synonym key = string

datatype hash = SHA256 | SHA384 | SHA512

datatype signature =
    HMAC hash key json_object json_object
  | OtherSignature string

datatype token_string =
    Raw string
  | Compact json_object json_object signature

text \<open>The bits of \<^verbatim>\<open>jwt.ValidationError.Errors\<close>; an error value is the set of bits that are set.\<close>

datatype validation_flag =
    ValidationErrorMalformed
  | ValidationErrorUnverifiable
  | ValidationErrorSignatureInvalid
  | ValidationErrorAudience
  | ValidationErrorExpired
  | ValidationErrorIssuedAt
  | ValidationErrorIssuer
  | ValidationErrorNotValidYet
  | ValidationErrorId
  | ValidationErrorClaimsInvalid

text \<open>
  The registered signing methods. Every method other than the three HMAC ones wants a key
  that is not a byte slice (an RSA or ECDSA public key, or the marker of \<^verbatim>\<open>none\<close>), so with
  the byte-slice key of this program its \<^verbatim>\<open>Verify\<close> and \<^verbatim>\<open>Sign\<close> fail.
\<close>

datatype signing_method = SigningMethodHMAC hash | SigningMethodOther string

definition GetSigningMethod :: "string \<Rightarrow> signing_method option" where
  "GetSigningMethod alg =
     (if alg = ''HS256'' then Some (SigningMethodHMAC SHA256)
      else if alg = ''HS384'' then Some (SigningMethodHMAC SHA384)
      else if alg = ''HS512'' then Some (SigningMethodHMAC SHA512)
      else if alg \<in> set [''RS256'', ''RS384'', ''RS512'', ''ES256'', ''ES384'', ''ES512'',
                          ''PS256'', ''PS384'', ''PS512'', ''none'']
      then Some (SigningMethodOther alg)
      else None)"

fun Alg :: "signing_method \<Rightarrow> string" where
  "Alg (SigningMethodHMAC SHA256) = ''HS256''"
| "Alg (SigningMethodHMAC SHA384) = ''HS384''"
| "Alg (SigningMethodHMAC SHA512) = ''HS512''"
| "Alg (SigningMethodOther alg) = alg"

fun Verify :: "signing_method \<Rightarrow> json_object \<Rightarrow> json_object \<Rightarrow> signature \<Rightarrow> key \<Rightarrow> bool" where
  "Verify (SigningMethodHMAC h) hdr cl sg k = (sg = HMAC h k hdr cl)"
| "Verify (SigningMethodOther alg) hdr cl sg k = False"

datatype sign_error = ErrInvalidKeyType

fun Sign :: "signing_method \<Rightarrow> json_object \<Rightarrow> json_object \<Rightarrow> key \<Rightarrow> sign_error + signature" where
  "Sign (SigningMethodHMAC h) hdr cl k = Inr (HMAC h k hdr cl)"
| "Sign (SigningMethodOther alg) hdr cl k = Inl ErrInvalidKeyType"

text \<open>
  \<^verbatim>\<open>jwt.NewWithClaims(method, claims).SignedString(key)\<close>: the header is
  \<^verbatim>\<open>{"typ": "JWT", "alg": method.Alg()}\<close>.
\<close>

definition token_header :: "signing_method \<Rightarrow> json_object" where
  "token_header method = [(''typ'', JString ''JWT''), (''alg'', JString (Alg method))]"

definition SignedString :: "signing_method \<Rightarrow> json_object \<Rightarrow> key \<Rightarrow> sign_error + token_string" where
  "SignedString method claims k =
     (case Sign method (token_header method) claims k of
        Inl e \<Rightarrow> Inl e
      | Inr sg \<Rightarrow> Inr (Compact (token_header method) claims sg))"

text \<open>The three time checks; a field that is 0 is a field that is not set.\<close>

definition verifyExp :: "int \<Rightarrow> int \<Rightarrow> bool \<Rightarrow> bool" where
  "verifyExp e now required = (if e = 0 then \<not> required else now \<le> e)"

definition verifyIat :: "int \<Rightarrow> int \<Rightarrow> bool \<Rightarrow> bool" where
  "verifyIat iat now required = (if iat = 0 then \<not> required else iat \<le> now)"

definition verifyNbf :: "int \<Rightarrow> int \<Rightarrow> bool \<Rightarrow> bool" where
  "verifyNbf nbf now required = (if nbf = 0 then \<not> required else nbf \<le> now)"

definition time_flags :: "bool \<Rightarrow> bool \<Rightarrow> bool \<Rightarrow> validation_flag set" where
  "time_flags exp_ok iat_ok nbf_ok =
     (if exp_ok then {} else {ValidationErrorExpired})
     \<union> (if iat_ok then {} else {ValidationErrorIssuedAt})
     \<union> (if nbf_ok then {} else {ValidationErrorNotValidYet})"

subsection \<open>The two claim types\<close>

text \<open>
  \<^verbatim>\<open>jwt.MapClaims\<close> is the decoded JSON object itself; its \<^verbatim>\<open>Valid\<close> reads \<^verbatim>\<open>exp\<close>,
  \<^verbatim>\<open>iat\<close> and \<^verbatim>\<open>nbf\<close> when they are numbers (a \<open>JNumber\<close> holds the number as the
  64-bit integer the library converts it to) and takes any other value as not set.
\<close>

fun MapClaims_number :: "json option \<Rightarrow> int option" where
  "MapClaims_number (Some (JNumber n)) = Some n"
| "MapClaims_number _ = None"

definition MapClaims_Valid :: "int \<Rightarrow> json_object \<Rightarrow> validation_flag set" where
  "MapClaims_Valid now m =
     time_flags
       (case MapClaims_number (map_of m ''exp'') of Some e \<Rightarrow> verifyExp e now False | None \<Rightarrow> True)
       (case MapClaims_number (map_of m ''iat'') of Some i \<Rightarrow> verifyIat i now False | None \<Rightarrow> True)
       (case MapClaims_number (map_of m ''nbf'') of Some n \<Rightarrow> verifyNbf n now False | None \<Rightarrow> True)"

text \<open>
  \<^verbatim>\<open>jwt.StandardClaims\<close>, and the session token that embeds it.

  Modelled from the spec: \<^verbatim>\<open>AuthorizationToken\<close> is declared in a file of the repository that
  is not among the sources. The session token of the spec carries subject, audience, the three
  times and the attribute mapping from a name to the ordered list of its values; the
  mapping is an association list with the entries in the order in which their keys were
  first written.
\<close>

record StandardClaims =
  Audience :: string
  ExpiresAt :: int
  Id :: string
  IssuedAt :: int
  Issuer :: string
  NotBefore :: int
  Subject :: string

record AuthorizationToken = StandardClaims +
  Attributes :: "(string \<times> string list) list"

definition StandardClaims_Valid :: "int \<Rightarrow> 'a StandardClaims_scheme \<Rightarrow> validation_flag set" where
  "StandardClaims_Valid now c =
     time_flags (verifyExp (ExpiresAt c) now False)
                (verifyIat (IssuedAt c) now False)
                (verifyNbf (NotBefore c) now False)"

text \<open>
  The JSON form of a session token. The fields of \<^verbatim>\<open>StandardClaims\<close> are tagged
  \<^verbatim>\<open>omitempty\<close>: a zero field is left out by the encoder, and a member that is missing
  or \<^verbatim>\<open>null\<close> leaves the field zero in the decoder. A member of another JSON type than
  its field makes the decoder fail.
\<close>

definition omitempty_string :: "string \<Rightarrow> string \<Rightarrow> json_object" where
  "omitempty_string k v = (if v = [] then [] else [(k, JString v)])"

definition omitempty_int :: "string \<Rightarrow> int \<Rightarrow> json_object" where
  "omitempty_int k v = (if v = 0 then [] else [(k, JNumber v)])"

definition encode_Attributes :: "(string \<times> string list) list \<Rightarrow> json" where
  "encode_Attributes m = JObject (map (\<lambda>(k, vs). (k, JArray (map JString vs))) m)"

definition encode_AuthorizationToken :: "AuthorizationToken \<Rightarrow> json_object" where
  "encode_AuthorizationToken c =
     omitempty_string ''aud'' (Audience c) @
     omitempty_int ''exp'' (ExpiresAt c) @
     omitempty_string ''jti'' (Id c) @
     omitempty_int ''iat'' (IssuedAt c) @
     omitempty_string ''iss'' (Issuer c) @
     omitempty_int ''nbf'' (NotBefore c) @
     omitempty_string ''sub'' (Subject c) @
     [(''attr'', encode_Attributes (Attributes c))]"

fun decode_string :: "json option \<Rightarrow> string option" where
  "decode_string None = Some []"
| "decode_string (Some JNull) = Some []"
| "decode_string (Some (JString s)) = Some s"
| "decode_string (Some _) = None"

fun decode_int64 :: "json option \<Rightarrow> int option" where
  "decode_int64 None = Some 0"
| "decode_int64 (Some JNull) = Some 0"
| "decode_int64 (Some (JNumber n)) = Some n"
| "decode_int64 (Some _) = None"

fun decode_string_slice :: "json \<Rightarrow> string list option" where
  "decode_string_slice JNull = Some []"
| "decode_string_slice (JArray xs) = those (map (\<lambda>x. decode_string (Some x)) xs)"
| "decode_string_slice _ = None"

fun decode_Attributes :: "json option \<Rightarrow> (string \<times> string list) list option" where
  "decode_Attributes None = Some []"
| "decode_Attributes (Some JNull) = Some []"
| "decode_Attributes (Some (JObject kvs)) =
     those (map (\<lambda>(k, v). map_option (Pair k) (decode_string_slice v)) kvs)"
| "decode_Attributes (Some _) = None"

definition decode_AuthorizationToken :: "json_object \<Rightarrow> AuthorizationToken option" where
  "decode_AuthorizationToken m =
     (case (decode_string (map_of m ''aud''), decode_int64 (map_of m ''exp''),
            decode_string (map_of m ''jti''), decode_int64 (map_of m ''iat''),
            decode_string (map_of m ''iss''), decode_int64 (map_of m ''nbf''),
            decode_string (map_of m ''sub''), decode_Attributes (map_of m ''attr'')) of
        (Some aud, Some ex, Some jti, Some iat, Some iss, Some nbf, Some sub, Some attr) \<Rightarrow>
          Some \<lparr>Audience = aud, ExpiresAt = ex, Id = jti, IssuedAt = iat, Issuer = iss,
                NotBefore = nbf, Subject = sub, Attributes = attr\<rparr>
      | _ \<Rightarrow> None)"

subsection \<open>Parsing and verifying\<close>

text \<open>
  \<^verbatim>\<open>Parser.ParseWithClaims\<close>, with the parser's \<^verbatim>\<open>ValidMethods\<close> (\<open>None\<close> for the nil
  list of the default parser behind the package-level \<^verbatim>\<open>jwt.ParseWithClaims\<close>), the
  decoder and the \<^verbatim>\<open>Valid\<close> of the claims type, the clock and the key that the key function
  returns. The result is the error, as its set of bits, or the claims of a token whose
  \<^verbatim>\<open>Valid\<close> field is set. The claims are validated before the signature, and the bits of
  both failures are collected in one error.
\<close>

definition ParseWithClaims ::
  "string list option \<Rightarrow> (json_object \<Rightarrow> 'c option) \<Rightarrow> (int \<Rightarrow> 'c \<Rightarrow> validation_flag set) \<Rightarrow>
   int \<Rightarrow> token_string \<Rightarrow> key \<Rightarrow> validation_flag set + 'c" where
  "ParseWithClaims ValidMethods decode valid now tokenString k =
     (case tokenString of
        Raw s \<Rightarrow> Inl {ValidationErrorMalformed}
      | Compact hdr cl sg \<Rightarrow>
          (case decode cl of
             None \<Rightarrow> Inl {ValidationErrorMalformed}
           | Some claims \<Rightarrow>
               (case map_of hdr ''alg'' of
                  Some (JString alg) \<Rightarrow>
                    (case GetSigningMethod alg of
                       None \<Rightarrow> Inl {ValidationErrorUnverifiable}
                     | Some method \<Rightarrow>
                         if (case ValidMethods of
                               None \<Rightarrow> False
                             | Some ms \<Rightarrow> Alg method \<notin> set ms)
                         then Inl {ValidationErrorSignatureInvalid}
                         else
                           (let vErr = valid now claims;
                                vErr = (if Verify method hdr cl sg k then vErr
                                        else insert ValidationErrorSignatureInvalid vErr)
                            in if vErr = {} then Inr claims else Inl vErr))
                | _ \<Rightarrow> Inl {ValidationErrorUnverifiable})))"

section \<open>Requests, responses and the state the browser holds\<close>

text \<open>
  A request, with what the middleware reads of it: the path and the full text of the URL,
  the \<^verbatim>\<open>RelayState\<close> form value (empty when absent), the cookies, and the session token
  that \<^verbatim>\<open>WithToken\<close> attaches to the request's context.
\<close>

record request =
  URL_Path :: string
  URL_String :: string
  Form_RelayState :: string
  state_cookies :: "(string \<times> token_string) list"
  token_cookie :: token_string
  context_token :: "AuthorizationToken option"

text \<open>
  The response writer. Headers and cookie instructions count only until the status line is
  written; a write without a status writes status 200 first, and a second status is
  dropped, as in \<^verbatim>\<open>net/http\<close>.
\<close>

datatype cookie_instruction =
    SetStateCookie string token_string
  | DeleteStateCookie string
  | SetTokenCookie token_string int

record response_writer =
  w_header :: "(string \<times> string) list"
  w_cookies :: "cookie_instruction list"
  w_status :: "nat option"
  w_body :: string

definition new_response :: response_writer where
  "new_response = \<lparr>w_header = [], w_cookies = [], w_status = None, w_body = []\<rparr>"

definition Header_Add :: "string \<Rightarrow> string \<Rightarrow> response_writer \<Rightarrow> response_writer" where
  "Header_Add n v w = (if w_status w = None then w\<lparr>w_header := w_header w @ [(n, v)]\<rparr> else w)"

definition Header_Set :: "string \<Rightarrow> string \<Rightarrow> response_writer \<Rightarrow> response_writer" where
  "Header_Set n v w =
     (if w_status w = None then w\<lparr>w_header := filter (\<lambda>(m, u). m \<noteq> n) (w_header w) @ [(n, v)]\<rparr>
      else w)"

definition add_cookie :: "cookie_instruction \<Rightarrow> response_writer \<Rightarrow> response_writer" where
  "add_cookie c w = (if w_status w = None then w\<lparr>w_cookies := w_cookies w @ [c]\<rparr> else w)"

definition WriteHeader :: "nat \<Rightarrow> response_writer \<Rightarrow> response_writer" where
  "WriteHeader code w = (if w_status w = None then w\<lparr>w_status := Some code\<rparr> else w)"

definition Write :: "string \<Rightarrow> response_writer \<Rightarrow> response_writer" where
  "Write b w = (let w = WriteHeader 200 w in w\<lparr>w_body := w_body w @ b\<rparr>)"

definition StatusFound :: nat where
  "StatusFound = 302"

definition StatusForbidden :: nat where
  "StatusForbidden = 403"

definition StatusInternalServerError :: nat where
  "StatusInternalServerError = 500"

definition StatusText :: "nat \<Rightarrow> string" where
  "StatusText code =
     (if code = 403 then ''Forbidden''
      else if code = 500 then ''Internal Server Error''
      else if code = 302 then ''Found''
      else [])"

text \<open>\<^verbatim>\<open>http.Error\<close>: two headers, the status, and the message on a line.\<close>

definition http_Error :: "response_writer \<Rightarrow> string \<Rightarrow> nat \<Rightarrow> response_writer" where
  "http_Error w msg code =
     Write (msg @ [CHR 0x0A])
       (WriteHeader code
         (Header_Set ''X-Content-Type-Options'' ''nosniff''
           (Header_Set ''Content-Type'' ''text/plain; charset=utf-8'' w)))"

text \<open>
  \<^verbatim>\<open>http.Redirect\<close>: the \<^verbatim>\<open>Location\<close> header and the status. (The library also makes a
  relative target absolute against the request's path and, for a GET request, writes a
  short HTML body; neither is part of this model.)
\<close>

definition http_Redirect :: "response_writer \<Rightarrow> request \<Rightarrow> string \<Rightarrow> nat \<Rightarrow> response_writer" where
  "http_Redirect w r url code = WriteHeader code (Header_Set ''Location'' url w)"

text \<open>
  Modelled from the spec: the \<^verbatim>\<open>ClientState\<close> and \<^verbatim>\<open>ClientToken\<close> interfaces and their
  cookie implementation are in files of the repository that are not among the sources. By the
  spec the relay-state store is client-held: \<^verbatim>\<open>getAll\<close> returns every relay-state value
  present in the request, \<^verbatim>\<open>getOne\<close> the value stored under a relay identifier or absent
  (the empty string, which is what \<^verbatim>\<open>Authorize\<close> tests for), and \<^verbatim>\<open>put\<close> and \<^verbatim>\<open>delete\<close>
  are instructions in the response headers. The session token is one cookie.
\<close>

definition GetStates :: "request \<Rightarrow> token_string list" where
  "GetStates r = map snd (state_cookies r)"

definition GetState :: "request \<Rightarrow> string \<Rightarrow> token_string" where
  "GetState r relayID = (case map_of (state_cookies r) relayID of None \<Rightarrow> Raw [] | Some v \<Rightarrow> v)"

definition SetState :: "response_writer \<Rightarrow> request \<Rightarrow> string \<Rightarrow> token_string \<Rightarrow> response_writer" where
  "SetState w r relayID v = add_cookie (SetStateCookie relayID v) w"

definition DeleteState :: "response_writer \<Rightarrow> request \<Rightarrow> string \<Rightarrow> response_writer" where
  "DeleteState w r relayID = add_cookie (DeleteStateCookie relayID) w"

definition GetToken :: "request \<Rightarrow> token_string" where
  "GetToken r = token_cookie r"

definition SetToken :: "response_writer \<Rightarrow> request \<Rightarrow> token_string \<Rightarrow> int \<Rightarrow> response_writer" where
  "SetToken w r v maxAge = add_cookie (SetTokenCookie v maxAge) w"

text \<open>
  What the browser holds after a response: each instruction of the response, in order,
  applied to the relay-state cookies it sent.
\<close>

fun apply_instruction :: "cookie_instruction \<Rightarrow> (string \<times> token_string) list \<Rightarrow> (string \<times> token_string) list" where
  "apply_instruction (SetStateCookie relayID v) jar = AList.update relayID v jar"
| "apply_instruction (DeleteStateCookie relayID) jar = AList.delete relayID jar"
| "apply_instruction (SetTokenCookie v maxAge) jar = jar"

definition client_states_after :: "response_writer \<Rightarrow> (string \<times> token_string) list \<Rightarrow> (string \<times> token_string) list" where
  "client_states_after w jar = fold apply_instruction (w_cookies w) jar"

section \<open>The protocol engine and the plugin\<close>

text \<open>
  The SAML library (\<^verbatim>\<open>crewjam/saml\<close>) is a dependency; the middleware uses the fields and
  methods below of its service provider, authentication request and assertion. The
  methods are parameters of the model.
\<close>

datatype binding = HTTPRedirectBinding | HTTPPostBinding

record authn_request =
  ID :: string
  Redirect :: "string \<Rightarrow> string"
  Post :: "string \<Rightarrow> string"

record attribute =
  FriendlyName :: string
  Name :: string
  Values :: "string list"

record attribute_statement =
  StatementAttributes :: "attribute list"

record subject =
  NameID :: "string option"

record assertion =
  AssertionSubject :: "subject option"
  AttributeStatements :: "attribute_statement list"

record service_provider =
  Key :: key
  MetadataURL_Path :: string
  AcsURL_Path :: string
  EntityID :: string
  GetSSOBindingLocation :: "binding \<Rightarrow> string"
  MakeAuthenticationRequest :: "string \<Rightarrow> string + authn_request"
  ParseResponse :: "request \<Rightarrow> string list \<Rightarrow> string + assertion"

text \<open>
  The plugin. \<^verbatim>\<open>Map\<close> is a Go map, visited in an order the language leaves open: the list
  gives the order of one visit. Times are in nanoseconds; \<^verbatim>\<open>Unix\<close> gives whole seconds.
  \<^verbatim>\<open>next\<close> is the downstream handler: it gets the response writer and the request and
  returns the writer with its status code and error.
\<close>

record SAMLPlugin =
  ServiceProvider :: service_provider
  AllowIDPInitiated :: bool
  TokenMaxAge :: int
  Map :: "(string \<times> string list) list"
  next_handler :: "response_writer \<Rightarrow> request \<Rightarrow> response_writer \<times> nat \<times> string option"

text \<open>
  What a call reads from outside: the clock (\<^verbatim>\<open>time.Now\<close>, behind both \<^verbatim>\<open>jwt.TimeFunc\<close> and
  \<^verbatim>\<open>saml.TimeNow\<close>), and the next relay identifier, the base64 text of 42 bytes of
  \<^verbatim>\<open>saml.RandReader\<close> (\<open>None\<close> when the reader fails, where \<^verbatim>\<open>randomBytes\<close> panics).
\<close>

record environment =
  now :: int
  fresh_relay_state :: "string option"

definition Unix :: "int \<Rightarrow> int" where
  "Unix t = t div 1000000000"

definition jwtSigningMethod :: signing_method where
  "jwtSigningMethod = SigningMethodHMAC SHA256"

text \<open>A call returns, or panics; a panic carries the response writer as it then stands.\<close>

datatype panic =
    DontWrapSAMLPluginWithRequireAccount
  | NotReached
  | RandReaderFailed
  | InterfaceConversion string
  | SignFailed sign_error

datatype 'a outcome = Panicked panic response_writer | Returned 'a

section \<open>The middleware\<close>

subsection \<open>\<^verbatim>\<open>RequireAccount\<close>\<close>

text \<open>
  The relay-state token is a \<^verbatim>\<open>MapClaims\<close> token with the claims \<^verbatim>\<open>id\<close> and \<^verbatim>\<open>uri\<close>.
  The binding is chosen first: the redirect binding, and the form-post binding when the
  redirect binding has no location.
\<close>

definition choose_binding :: "service_provider \<Rightarrow> binding \<times> string" where
  "choose_binding sp =
     (let binding = HTTPRedirectBinding;
          bindingLocation = GetSSOBindingLocation sp binding
      in if bindingLocation = []
         then (HTTPPostBinding, GetSSOBindingLocation sp HTTPPostBinding)
         else (binding, bindingLocation))"

definition post_binding_csp :: string where
  "post_binding_csp =
     ''default-src; '' @
     ''script-src 'sha256-AjPdJSbZmeWHnEc5ykvJFay8FTWeTeRbs9dutfZ0HqE='; '' @
     ''reflected-xss block; referrer no-referrer;''"

definition RequireAccount ::
  "SAMLPlugin \<Rightarrow> environment \<Rightarrow> response_writer \<Rightarrow> request \<Rightarrow> response_writer outcome" where
  "RequireAccount s env w r =
     (if URL_Path r = AcsURL_Path (ServiceProvider s)
      then Panicked DontWrapSAMLPluginWithRequireAccount w
      else
        (case choose_binding (ServiceProvider s) of
           (binding, bindingLocation) \<Rightarrow>
             (case MakeAuthenticationRequest (ServiceProvider s) bindingLocation of
                Inl err \<Rightarrow> Returned (http_Error w err StatusInternalServerError)
              | Inr req \<Rightarrow>
                  (case fresh_relay_state env of
                     None \<Rightarrow> Panicked RandReaderFailed w
                   | Some relayState \<Rightarrow>
                       (let secretBlock = Key (ServiceProvider s);
                            claims = [(''id'', JString (ID req)), (''uri'', JString (URL_String r))]
                        in case SignedString jwtSigningMethod claims secretBlock of
                             Inl err \<Rightarrow> Returned (http_Error w ''key is of invalid type'' StatusInternalServerError)
                           | Inr signedState \<Rightarrow>
                               (let w = SetState w r relayState signedState
                                in if binding = HTTPRedirectBinding
                                   then Returned (WriteHeader StatusFound
                                          (Header_Add ''Location'' (Redirect req relayState) w))
                                   else if binding = HTTPPostBinding
                                   then Returned
                                          (Write ''</body></html>''
                                            (Write (Post req relayState)
                                              (Write ''<!DOCTYPE html><html><body>''
                                                (Header_Add ''Content-type'' ''text/html''
                                                  (Header_Add ''Content-Security-Policy'' post_binding_csp w)))))
                                   else Panicked NotReached w))))))"

subsection \<open>\<^verbatim>\<open>getPossibleRequestIDs\<close>\<close>

text \<open>
  The parser of the relay-state token lists one valid method, the name of
  \<^verbatim>\<open>jwtSigningMethod\<close>. The type assertion \<^verbatim>\<open>claims["id"].(string)\<close> has the one-value
  form, which panics when the claim is missing or is not a string.
\<close>

definition parse_state :: "SAMLPlugin \<Rightarrow> environment \<Rightarrow> token_string \<Rightarrow> validation_flag set + json_object" where
  "parse_state s env v =
     ParseWithClaims (Some [Alg jwtSigningMethod]) Some MapClaims_Valid (Unix (now env)) v
       (Key (ServiceProvider s))"

fun collect_request_ids :: "SAMLPlugin \<Rightarrow> environment \<Rightarrow> token_string list \<Rightarrow> string list \<Rightarrow> panic + string list" where
  "collect_request_ids s env [] rv = Inr rv"
| "collect_request_ids s env (v # rest) rv =
     (case parse_state s env v of
        Inl err \<Rightarrow> collect_request_ids s env rest rv
      | Inr claims \<Rightarrow>
          (case map_of claims ''id'' of
             Some (JString i) \<Rightarrow> collect_request_ids s env rest (rv @ [i])
           | _ \<Rightarrow> Inl (InterfaceConversion ''id'')))"

definition getPossibleRequestIDs :: "SAMLPlugin \<Rightarrow> environment \<Rightarrow> request \<Rightarrow> panic + string list" where
  "getPossibleRequestIDs s env r =
     (case collect_request_ids s env (GetStates r) [] of
        Inl p \<Rightarrow> Inl p
      | Inr rv \<Rightarrow> Inr (if AllowIDPInitiated s then rv @ [[]] else rv))"

subsection \<open>\<^verbatim>\<open>Authorize\<close>\<close>

definition claimName :: "attribute \<Rightarrow> string" where
  "claimName attr = (if FriendlyName attr = [] then Name attr else FriendlyName attr)"

text \<open>
  Reading a Go map of slices at a key gives the nil slice when the key is missing;
  \<^verbatim>\<open>m[k] = append(m[k], v)\<close> is \<open>append_value k m v\<close>.
\<close>

definition index_map :: "(string \<times> string list) list \<Rightarrow> string \<Rightarrow> string list" where
  "index_map m k = (case map_of m k of None \<Rightarrow> [] | Some vs \<Rightarrow> vs)"

definition append_value :: "string \<Rightarrow> (string \<times> string list) list \<Rightarrow> string \<Rightarrow> (string \<times> string list) list" where
  "append_value k m v = AList.update k (index_map m k @ [v]) m"

definition add_attribute :: "(string \<times> string list) list \<Rightarrow> attribute \<Rightarrow> (string \<times> string list) list" where
  "add_attribute m attr = foldl (append_value (claimName attr)) m (Values attr)"

definition statement_attributes :: "attribute_statement \<Rightarrow> (string \<times> string list) list" where
  "statement_attributes st = foldl add_attribute [] (StatementAttributes st)"

definition session_claims :: "SAMLPlugin \<Rightarrow> environment \<Rightarrow> assertion \<Rightarrow> AuthorizationToken" where
  "session_claims s env a =
     \<lparr>Audience = EntityID (ServiceProvider s),
      ExpiresAt = Unix (now env + TokenMaxAge s),
      Id = [],
      IssuedAt = Unix (now env),
      Issuer = [],
      NotBefore = Unix (now env),
      Subject = (case AssertionSubject a of
                   None \<Rightarrow> []
                 | Some sub \<Rightarrow> (case NameID sub of None \<Rightarrow> [] | Some v \<Rightarrow> v)),
      Attributes = foldl (\<lambda>m st. statement_attributes st) [] (AttributeStatements a)\<rparr>"

text \<open>
  The first half of \<^verbatim>\<open>Authorize\<close>: the relay state named by the request is looked up,
  verified and deleted. The result is the early exit, or the redirect target with the
  response writer.
\<close>

definition consume_relay_state ::
  "SAMLPlugin \<Rightarrow> environment \<Rightarrow> response_writer \<Rightarrow> request \<Rightarrow>
   response_writer outcome + string \<times> response_writer" where
  "consume_relay_state s env w r =
     (let relayState = Form_RelayState r
      in if relayState \<noteq> [] then
           (let stateValue = GetState r relayState
            in if stateValue = Raw []
               then Inl (Returned (http_Error w (StatusText StatusForbidden) StatusForbidden))
               else
                 (case parse_state s env stateValue of
                    Inl err \<Rightarrow> Inl (Returned (http_Error w (StatusText StatusForbidden) StatusForbidden))
                  | Inr claims \<Rightarrow>
                      (case map_of claims ''uri'' of
                         Some (JString redirectURI) \<Rightarrow> Inr (redirectURI, DeleteState w r relayState)
                       | _ \<Rightarrow> Inl (Panicked (InterfaceConversion ''uri'') w))))
         else Inr (''/'', w))"

definition Authorize ::
  "SAMLPlugin \<Rightarrow> environment \<Rightarrow> response_writer \<Rightarrow> request \<Rightarrow> assertion \<Rightarrow> response_writer outcome" where
  "Authorize s env w r a =
     (case consume_relay_state s env w r of
        Inl out \<Rightarrow> out
      | Inr (redirectURI, w) \<Rightarrow>
          (case SignedString (SigningMethodHMAC SHA256)
                  (encode_AuthorizationToken (session_claims s env a)) (Key (ServiceProvider s)) of
             Inl err \<Rightarrow> Panicked (SignFailed err) w
           | Inr signedToken \<Rightarrow>
               Returned (http_Redirect (SetToken w r signedToken (TokenMaxAge s)) r redirectURI StatusFound)))"

subsection \<open>\<^verbatim>\<open>GetAuthorizationToken\<close>\<close>

text \<open>
  The session token is parsed with the package-level \<^verbatim>\<open>jwt.ParseWithClaims\<close>, that is with
  the default parser, which lists no valid methods.
\<close>

definition parse_session :: "SAMLPlugin \<Rightarrow> environment \<Rightarrow> token_string \<Rightarrow> validation_flag set + AuthorizationToken" where
  "parse_session s env tokenStr =
     ParseWithClaims None decode_AuthorizationToken StandardClaims_Valid (Unix (now env)) tokenStr
       (Key (ServiceProvider s))"

definition GetAuthorizationToken :: "SAMLPlugin \<Rightarrow> environment \<Rightarrow> request \<Rightarrow> AuthorizationToken option" where
  "GetAuthorizationToken s env r =
     (let tokenStr = GetToken r
      in if tokenStr = Raw [] then None
         else
           (case parse_session s env tokenStr of
              Inl err \<Rightarrow> None
            | Inr tokenClaims \<Rightarrow>
                if StandardClaims_Valid (Unix (now env)) tokenClaims \<noteq> {} then None
                else if Audience tokenClaims \<noteq> EntityID (ServiceProvider s) then None
                else Some tokenClaims))"

definition IsAuthorized :: "SAMLPlugin \<Rightarrow> environment \<Rightarrow> request \<Rightarrow> bool" where
  "IsAuthorized s env r = (GetAuthorizationToken s env r \<noteq> None)"

subsection \<open>\<^verbatim>\<open>ServeHTTP\<close>\<close>

text \<open>
  Functions of the repository that \<^verbatim>\<open>ServeHTTP\<close> calls and that are not among the sources;
  they are parameters of the model.
\<close>

record helpers =
  GetEntityDescriptor :: "string + string"
  isAuthorized :: "string list \<Rightarrow> AuthorizationToken \<Rightarrow> bool"
  setHeaders :: "request \<Rightarrow> AuthorizationToken \<Rightarrow> request"
  dumpAttributes :: "string list \<Rightarrow> bool"
  Fdump :: "AuthorizationToken \<Rightarrow> string"

type_synonym served = "response_writer \<times> nat \<times> string option"

text \<open>
  The loop over \<^verbatim>\<open>Map\<close>: the result is the early return of the loop body, or \<open>None\<close> with
  the response writer when the loop runs to its end.
\<close>

fun serve_rules ::
  "SAMLPlugin \<Rightarrow> helpers \<Rightarrow> environment \<Rightarrow> (string \<times> string list) list \<Rightarrow> response_writer \<Rightarrow> request \<Rightarrow>
   (served + response_writer) outcome" where
  "serve_rules s hp env [] w r = Returned (Inr w)"
| "serve_rules s hp env ((k, v) # rest) w r =
     (if prefix k (URL_Path r) then
        (case GetAuthorizationToken s env r of
           Some token \<Rightarrow>
             (let r = r\<lparr>context_token := Some token\<rparr>
              in if isAuthorized hp v token then
                   (let r = setHeaders hp r token
                    in if dumpAttributes hp v
                       then Returned (Inl (Write (Fdump hp token) w, 200, None))
                       else Returned (Inl (next_handler s w r)))
                 else Returned (Inl (w, 403, None)))
         | None \<Rightarrow>
             (case RequireAccount s env w r of
                Panicked p w \<Rightarrow> Panicked p w
              | Returned w \<Rightarrow> serve_rules s hp env rest w r))
      else serve_rules s hp env rest w r)"

definition ServeHTTP ::
  "SAMLPlugin \<Rightarrow> helpers \<Rightarrow> environment \<Rightarrow> response_writer \<Rightarrow> request \<Rightarrow> served outcome" where
  "ServeHTTP s hp env w r =
     (if URL_Path r = MetadataURL_Path (ServiceProvider s) then
        (case GetEntityDescriptor hp of
           Inl err \<Rightarrow> Returned (w, 500, Some err)
         | Inr md \<Rightarrow> Returned (Write (md @ [CHR 0x0A]) w, 200, None))
      else if URL_Path r = AcsURL_Path (ServiceProvider s) then
        (case getPossibleRequestIDs s env r of
           Inl p \<Rightarrow> Panicked p w
         | Inr ids \<Rightarrow>
             (case ParseResponse (ServiceProvider s) r ids of
                Inl err \<Rightarrow>
                  Returned (next_handler s (http_Error w (StatusText StatusForbidden) StatusForbidden) r)
              | Inr a \<Rightarrow>
                  (case Authorize s env w r a of
                     Panicked p w \<Rightarrow> Panicked p w
                   | Returned w \<Rightarrow> Returned (next_handler s w r))))
      else
        (case serve_rules s hp env (Map s) w r of
           Panicked p w \<Rightarrow> Panicked p w
         | Returned (Inl res) \<Rightarrow> Returned res
         | Returned (Inr w) \<Rightarrow> Returned (next_handler s w r)))"

section \<open>Notions used in the statements\<close>

text \<open>
  The signature check of the parser on its own: the method that the header names is looked
  up and its \<^verbatim>\<open>Verify\<close> is run with the key.
\<close>

definition token_signature_valid :: "json_object \<Rightarrow> json_object \<Rightarrow> signature \<Rightarrow> key \<Rightarrow> bool" where
  "token_signature_valid hdr cl sg k =
     (case map_of hdr ''alg'' of
        Some (JString alg) \<Rightarrow>
          (case GetSigningMethod alg of Some method \<Rightarrow> Verify method hdr cl sg k | None \<Rightarrow> False)
      | _ \<Rightarrow> False)"

text \<open>
  In the words of the spec: a relay-state value that verifies as a token signed with the
  service key under the fixed algorithm, at a time its claims allow. The result is the
  claims of such a value.
\<close>

definition spec_valid_relay_state :: "key \<Rightarrow> int \<Rightarrow> token_string \<Rightarrow> json_object option" where
  "spec_valid_relay_state k t v =
     (case v of
        Raw s \<Rightarrow> None
      | Compact hdr cl sg \<Rightarrow>
          if map_of hdr ''alg'' = Some (JString ''HS256'') \<and> sg = HMAC SHA256 k hdr cl \<and>
             MapClaims_Valid t cl = {}
          then Some cl else None)"

text \<open>A token with the header of the library, signed with an HMAC method.\<close>

definition hmac_token :: "hash \<Rightarrow> key \<Rightarrow> json_object \<Rightarrow> token_string" where
  "hmac_token h k cl =
     Compact (token_header (SigningMethodHMAC h)) cl
       (HMAC h k (token_header (SigningMethodHMAC h)) cl)"

section \<open>A deployment to evaluate the model on\<close>

definition example_request_for :: "string \<Rightarrow> authn_request" where
  "example_request_for loc =
     \<lparr>ID = ''id-7f3a'',
      Redirect = (\<lambda>relayState. loc @ ''?SAMLRequest=x&RelayState='' @ relayState),
      Post = (\<lambda>relayState. ''<form method=post action='' @ loc @ ''>'' @ relayState @ ''</form>'')\<rparr>"

definition example_provider :: service_provider where
  "example_provider =
     \<lparr>Key = ''service-key'',
      MetadataURL_Path = ''/saml/metadata'',
      AcsURL_Path = ''/saml/acs'',
      EntityID = ''https://sp.example/saml/metadata'',
      GetSSOBindingLocation =
        (\<lambda>b. case b of HTTPRedirectBinding \<Rightarrow> ''https://idp.example/sso''
                      | HTTPPostBinding \<Rightarrow> ''https://idp.example/sso-post''),
      MakeAuthenticationRequest = (\<lambda>loc. Inr (example_request_for loc)),
      ParseResponse = (\<lambda>r ids. Inl ''no response'')\<rparr>"

definition example_plugin :: SAMLPlugin where
  "example_plugin =
     \<lparr>ServiceProvider = example_provider,
      AllowIDPInitiated = False,
      TokenMaxAge = 3600000000000,
      Map = [(''/private'', [''role'', ''admin''])],
      next_handler = (\<lambda>w r. (Write ''downstream page'' w, 200, None))\<rparr>"

text \<open>The same deployment with no location for either binding.\<close>

definition unbound_plugin :: SAMLPlugin where
  "unbound_plugin =
     example_plugin\<lparr>ServiceProvider := example_provider\<lparr>GetSSOBindingLocation := (\<lambda>b. [])\<rparr>\<rparr>"

definition example_helpers :: helpers where
  "example_helpers =
     \<lparr>GetEntityDescriptor = Inr ''<EntityDescriptor/>'',
      isAuthorized = (\<lambda>v token. True),
      setHeaders = (\<lambda>r token. r),
      dumpAttributes = (\<lambda>v. False),
      Fdump = (\<lambda>token. [])\<rparr>"

definition example_env :: environment where
  "example_env = \<lparr>now = 1700000000000000005, fresh_relay_state = Some ''cmVsYXktc3RhdGU''\<rparr>"

definition example_request :: request where
  "example_request =
     \<lparr>URL_Path = ''/private/report'',
      URL_String = ''/private/report?year=2017'',
      Form_RelayState = [],
      state_cookies = [],
      token_cookie = Raw [],
      context_token = None\<rparr>"

definition example_assertion :: assertion where
  "example_assertion =
     \<lparr>AssertionSubject = Some \<lparr>NameID = Some ''alice''\<rparr>,
      AttributeStatements =
        [\<lparr>StatementAttributes =
            [\<lparr>FriendlyName = ''mail'', Name = ''urn:oid:0.9.2342.19200300.100.1.3'',
              Values = [''alice@example.org'']\<rparr>]\<rparr>,
         \<lparr>StatementAttributes =
            [\<lparr>FriendlyName = [], Name = ''role'', Values = [''admin'', ''user'']\<rparr>]\<rparr>]\<rparr>"

text \<open>The session claims of a signed-in user, and the relay state of a login on its way.\<close>

definition example_claims :: AuthorizationToken where
  "example_claims =
     \<lparr>Audience = ''https://sp.example/saml/metadata'', ExpiresAt = 1700003600, Id = [],
      IssuedAt = 1700000000, Issuer = [], NotBefore = 1700000000, Subject = ''alice'',
      Attributes = [(''role'', [''admin'', ''user''])]\<rparr>"

definition example_relay_claims :: json_object where
  "example_relay_claims = [(''id'', JString ''id-7f3a''), (''uri'', JString ''/private/report?year=2017'')]"

definition callback_request :: request where
  "callback_request =
     \<lparr>URL_Path = ''/saml/acs'',
      URL_String = ''/saml/acs'',
      Form_RelayState = ''cmVsYXktc3RhdGU'',
      state_cookies = [(''cmVsYXktc3RhdGU'', hmac_token SHA256 ''service-key'' example_relay_claims)],
      token_cookie = Raw [],
      context_token = None\<rparr>"

text \<open>What \<^verbatim>\<open>Authorize\<close> answers to the callback of that login.\<close>

definition callback_response :: response_writer where
  "callback_response =
     \<lparr>w_header = [(''Location'', ''/private/report?year=2017'')],
      w_cookies =
        [DeleteStateCookie ''cmVsYXktc3RhdGU'',
         SetTokenCookie (hmac_token SHA256 ''service-key'' (encode_AuthorizationToken example_claims))
           3600000000000],
      w_status = Some 302,
      w_body = []\<rparr>"

section \<open>The session check\<close>

lemma time_flags_empty: "time_flags a b c = {} \<longleftrightarrow> a \<and> b \<and> c"
  by (simp add: time_flags_def)

lemma parse_session_Inr:
  "parse_session s env tok = Inr c \<longleftrightarrow>
     (\<exists>hdr cl sg. tok = Compact hdr cl sg \<and> decode_AuthorizationToken cl = Some c \<and>
        token_signature_valid hdr cl sg (Key (ServiceProvider s)) \<and>
        StandardClaims_Valid (Unix (now env)) c = {})"
  by (auto simp: parse_session_def ParseWithClaims_def token_signature_valid_def Let_def
      split: token_string.splits option.splits json.splits if_splits)

lemma GetAuthorizationToken_Some:
  "GetAuthorizationToken s env r = Some c \<longleftrightarrow>
     (\<exists>hdr cl sg. GetToken r = Compact hdr cl sg \<and> decode_AuthorizationToken cl = Some c \<and>
        token_signature_valid hdr cl sg (Key (ServiceProvider s)) \<and>
        StandardClaims_Valid (Unix (now env)) c = {} \<and>
        Audience c = EntityID (ServiceProvider s))"
proof (cases "parse_session s env (GetToken r)")
  case (Inl e)
  then have "\<And>c. parse_session s env (GetToken r) \<noteq> Inr c" by simp
  then have no: "\<And>c. \<not> (\<exists>hdr cl sg. GetToken r = Compact hdr cl sg \<and> decode_AuthorizationToken cl = Some c \<and>
        token_signature_valid hdr cl sg (Key (ServiceProvider s)) \<and>
        StandardClaims_Valid (Unix (now env)) c = {})"
    unfolding parse_session_Inr by blast
  have "GetAuthorizationToken s env r = None"
    using Inl by (simp add: GetAuthorizationToken_def Let_def)
  with no show ?thesis by auto
next
  case (Inr c')
  then have ex: "\<exists>hdr cl sg. GetToken r = Compact hdr cl sg \<and> decode_AuthorizationToken cl = Some c' \<and>
        token_signature_valid hdr cl sg (Key (ServiceProvider s)) \<and>
        StandardClaims_Valid (Unix (now env)) c' = {}"
    unfolding parse_session_Inr by blast
  then have ne: "GetToken r \<noteq> Raw []" by auto
  show ?thesis
    using Inr ex ne by (auto simp: GetAuthorizationToken_def Let_def)
qed

lemma StandardClaims_Valid_empty:
  "StandardClaims_Valid t c = {} \<longleftrightarrow>
     (ExpiresAt c = 0 \<or> t \<le> ExpiresAt c) \<and> (IssuedAt c = 0 \<or> IssuedAt c \<le> t) \<and>
     (NotBefore c = 0 \<or> NotBefore c \<le> t)"
  by (auto simp: StandardClaims_Valid_def time_flags_empty verifyExp_def verifyIat_def verifyNbf_def)

text \<open>
  Claim C3. \<^verbatim>\<open>GetAuthorizationToken\<close> has no error result, and it returns absent on every
  verification failure: when the session cookie is missing or is not a token, when the
  signature does not verify with the service key, when the claims do not decode, when
  the token is expired, not yet valid or used before it was issued, and when its
  audience is not the entity ID of the service. (The library reads a time field equal to 0
  as a field that is not set.)
\<close>

theorem session_check_degrades_to_absent:
  "(GetToken r = Raw raw \<longrightarrow> GetAuthorizationToken s env r = None) \<and>
   (GetToken r = Compact hdr cl sg \<and>
      (\<not> token_signature_valid hdr cl sg (Key (ServiceProvider s)) \<or>
       decode_AuthorizationToken cl = None \<or>
       (\<exists>c. decode_AuthorizationToken cl = Some c \<and>
          (ExpiresAt c \<noteq> 0 \<and> ExpiresAt c < Unix (now env) \<or>
           NotBefore c \<noteq> 0 \<and> Unix (now env) < NotBefore c \<or>
           IssuedAt c \<noteq> 0 \<and> Unix (now env) < IssuedAt c \<or>
           Audience c \<noteq> EntityID (ServiceProvider s))))
    \<longrightarrow> GetAuthorizationToken s env r = None)"
proof (intro conjI impI)
  assume "GetToken r = Raw raw"
  then have "\<And>c. GetAuthorizationToken s env r \<noteq> Some c"
    unfolding GetAuthorizationToken_Some by simp
  then show "GetAuthorizationToken s env r = None" by (cases "GetAuthorizationToken s env r") auto
next
  assume a: "GetToken r = Compact hdr cl sg \<and>
      (\<not> token_signature_valid hdr cl sg (Key (ServiceProvider s)) \<or>
       decode_AuthorizationToken cl = None \<or>
       (\<exists>c. decode_AuthorizationToken cl = Some c \<and>
          (ExpiresAt c \<noteq> 0 \<and> ExpiresAt c < Unix (now env) \<or>
           NotBefore c \<noteq> 0 \<and> Unix (now env) < NotBefore c \<or>
           IssuedAt c \<noteq> 0 \<and> Unix (now env) < IssuedAt c \<or>
           Audience c \<noteq> EntityID (ServiceProvider s))))"
  have "GetAuthorizationToken s env r \<noteq> Some c" for c
  proof
    assume "GetAuthorizationToken s env r = Some c"
    then obtain hdr' cl' sg' where t: "GetToken r = Compact hdr' cl' sg'"
      and d: "decode_AuthorizationToken cl' = Some c"
      and v: "token_signature_valid hdr' cl' sg' (Key (ServiceProvider s))"
      and w: "StandardClaims_Valid (Unix (now env)) c = {}"
      and au: "Audience c = EntityID (ServiceProvider s)"
      unfolding GetAuthorizationToken_Some by blast
    from a t have eq: "hdr' = hdr" "cl' = cl" "sg' = sg" by simp_all
    from w have "(ExpiresAt c = 0 \<or> Unix (now env) \<le> ExpiresAt c) \<and>
      (IssuedAt c = 0 \<or> IssuedAt c \<le> Unix (now env)) \<and>
      (NotBefore c = 0 \<or> NotBefore c \<le> Unix (now env))"
      by (simp add: StandardClaims_Valid_empty)
    with a d v au eq show False by auto
  qed
  then show "GetAuthorizationToken s env r = None" by (cases "GetAuthorizationToken s env r") auto
qed

lemma example_projections:
  "Key (ServiceProvider example_plugin) = ''service-key''"
  "EntityID (ServiceProvider example_plugin) = ''https://sp.example/saml/metadata''"
  "AcsURL_Path (ServiceProvider example_plugin) = ''/saml/acs''"
  "MetadataURL_Path (ServiceProvider example_plugin) = ''/saml/metadata''"
  "Unix (now example_env) = 1700000000"
  by (simp_all add: example_plugin_def example_provider_def example_env_def Unix_def)

lemma token_signature_valid_hmac_token:
  "token_signature_valid (token_header (SigningMethodHMAC h)) cl (HMAC h' k' hdr' cl') k \<longleftrightarrow>
     h' = h \<and> k' = k \<and> hdr' = token_header (SigningMethodHMAC h) \<and> cl' = cl"
  by (cases h) (auto simp: token_signature_valid_def token_header_def GetSigningMethod_def)

theorem session_check_degrades_to_absent_witness:
  "GetAuthorizationToken example_plugin example_env example_request = None \<and>
   GetAuthorizationToken example_plugin example_env
     (example_request\<lparr>token_cookie := hmac_token SHA256 ''other-key'' (encode_AuthorizationToken example_claims)\<rparr>) = None \<and>
   GetAuthorizationToken example_plugin example_env
     (example_request\<lparr>token_cookie := hmac_token SHA256 ''service-key''
        (encode_AuthorizationToken (example_claims\<lparr>ExpiresAt := 1699999999\<rparr>))\<rparr>) = None \<and>
   GetAuthorizationToken example_plugin example_env
     (example_request\<lparr>token_cookie := hmac_token SHA256 ''service-key''
        (encode_AuthorizationToken (example_claims\<lparr>Audience := ''https://other.example''\<rparr>))\<rparr>) = None"
proof -
  let ?hdr = "token_header (SigningMethodHMAC SHA256)"
  let ?P = "\<lambda>k c. GetAuthorizationToken example_plugin example_env
     (example_request\<lparr>token_cookie := hmac_token SHA256 k (encode_AuthorizationToken c)\<rparr>) = None"
  have 1: "GetAuthorizationToken example_plugin example_env example_request = None"
    using session_check_degrades_to_absent
      [of example_request "[]" example_plugin example_env "[]" "[]" "OtherSignature []"]
    by (simp add: GetToken_def example_request_def)
  have 2: "?P ''other-key'' example_claims"
    using session_check_degrades_to_absent
      [of "example_request\<lparr>token_cookie := hmac_token SHA256 ''other-key'' (encode_AuthorizationToken example_claims)\<rparr>"
          "[]" example_plugin example_env ?hdr "encode_AuthorizationToken example_claims"
          "HMAC SHA256 ''other-key'' ?hdr (encode_AuthorizationToken example_claims)"]
    by (simp add: GetToken_def hmac_token_def token_signature_valid_hmac_token example_projections)
  have d: "decode_AuthorizationToken (encode_AuthorizationToken (example_claims\<lparr>ExpiresAt := 1699999999\<rparr>))
      = Some (example_claims\<lparr>ExpiresAt := 1699999999\<rparr>)"
    by (simp add: decode_AuthorizationToken_def encode_AuthorizationToken_def example_claims_def
        omitempty_string_def omitempty_int_def encode_Attributes_def)
  have 3: "?P ''service-key'' (example_claims\<lparr>ExpiresAt := 1699999999\<rparr>)"
    using session_check_degrades_to_absent
      [of "example_request\<lparr>token_cookie := hmac_token SHA256 ''service-key''
             (encode_AuthorizationToken (example_claims\<lparr>ExpiresAt := 1699999999\<rparr>))\<rparr>"
          "[]" example_plugin example_env ?hdr
          "encode_AuthorizationToken (example_claims\<lparr>ExpiresAt := 1699999999\<rparr>)"
          "HMAC SHA256 ''service-key'' ?hdr (encode_AuthorizationToken (example_claims\<lparr>ExpiresAt := 1699999999\<rparr>))"]
      d
    by (simp add: GetToken_def hmac_token_def example_projections)
  have d': "decode_AuthorizationToken (encode_AuthorizationToken (example_claims\<lparr>Audience := ''https://other.example''\<rparr>))
      = Some (example_claims\<lparr>Audience := ''https://other.example''\<rparr>)"
    by (simp add: decode_AuthorizationToken_def encode_AuthorizationToken_def example_claims_def
        omitempty_string_def omitempty_int_def encode_Attributes_def)
  have 4: "?P ''service-key'' (example_claims\<lparr>Audience := ''https://other.example''\<rparr>)"
    using session_check_degrades_to_absent
      [of "example_request\<lparr>token_cookie := hmac_token SHA256 ''service-key''
             (encode_AuthorizationToken (example_claims\<lparr>Audience := ''https://other.example''\<rparr>))\<rparr>"
          "[]" example_plugin example_env ?hdr
          "encode_AuthorizationToken (example_claims\<lparr>Audience := ''https://other.example''\<rparr>)"
          "HMAC SHA256 ''service-key'' ?hdr (encode_AuthorizationToken (example_claims\<lparr>Audience := ''https://other.example''\<rparr>))"]
      d'
    by (simp add: GetToken_def hmac_token_def example_projections)
  show ?thesis using 1 2 3 4 by blast
qed

section \<open>Starting a login\<close>

text \<open>
  Claim C7. \<^verbatim>\<open>RequireAccount\<close> on a request for the path of the assertion consumer
  endpoint panics, whatever the protocol engine, the clock and the random source are,
  and the response writer is as it was: no header, cookie instruction, status or body
  has been written.
\<close>

theorem RequireAccount_on_callback_path_panics:
  "URL_Path r = AcsURL_Path (ServiceProvider s) \<Longrightarrow>
   RequireAccount s env w r = Panicked DontWrapSAMLPluginWithRequireAccount w"
  by (simp add: RequireAccount_def)

theorem RequireAccount_on_callback_path_panics_witness:
  "URL_Path callback_request = AcsURL_Path (ServiceProvider example_plugin) \<and>
   RequireAccount example_plugin example_env new_response callback_request =
     Panicked DontWrapSAMLPluginWithRequireAccount new_response"
proof -
  have p: "URL_Path callback_request = AcsURL_Path (ServiceProvider example_plugin)"
    by (simp add: callback_request_def example_plugin_def example_provider_def)
  show ?thesis
    using p RequireAccount_on_callback_path_panics [OF p, of example_env new_response] by simp
qed

section \<open>Signing and verifying a session token\<close>

lemma those_decode_strings: "those (map ((\<lambda>x. decode_string (Some x)) \<circ> JString) vs) = Some vs"
  by (induction vs) simp_all

lemma decode_encode_Attributes: "decode_Attributes (Some (encode_Attributes m)) = Some m"
proof -
  have "those (map (\<lambda>(k, v). map_option (Pair k) (decode_string_slice v))
          (map (\<lambda>(k, vs). (k, JArray (map JString vs))) m)) = Some m"
    by (induction m) (auto simp: those_decode_strings)
  then show ?thesis by (simp add: encode_Attributes_def)
qed

lemma decode_encode_AuthorizationToken:
  "decode_AuthorizationToken (encode_AuthorizationToken c) = Some c"
  by (simp add: decode_AuthorizationToken_def encode_AuthorizationToken_def
      omitempty_string_def omitempty_int_def decode_encode_Attributes)

lemma SignedString_HMAC: "SignedString (SigningMethodHMAC h) cl k = Inr (hmac_token h k cl)"
  by (simp add: SignedString_def hmac_token_def)

lemma parse_session_hmac_token:
  "parse_session s env (hmac_token h k (encode_AuthorizationToken c)) = Inr c \<longleftrightarrow>
     k = Key (ServiceProvider s) \<and> StandardClaims_Valid (Unix (now env)) c = {}"
  by (auto simp: parse_session_Inr hmac_token_def token_signature_valid_hmac_token
      decode_encode_AuthorizationToken)

text \<open>
  Claim C4. A claim set signed as \<^verbatim>\<open>Authorize\<close> signs it (HMAC-SHA-256, the key of the
  service) gives a token that the parser of \<^verbatim>\<open>GetAuthorizationToken\<close> accepts with the same
  key at every time inside the validity window of the claims, and the claims that come
  back are the claims that were signed; when the audience is the entity ID of the
  service, as \<^verbatim>\<open>Authorize\<close> sets it, \<^verbatim>\<open>GetAuthorizationToken\<close> returns them.
\<close>

theorem sign_verify_round_trip:
  assumes "(ExpiresAt c = 0 \<or> Unix (now env) \<le> ExpiresAt c) \<and>
           (IssuedAt c = 0 \<or> IssuedAt c \<le> Unix (now env)) \<and>
           (NotBefore c = 0 \<or> NotBefore c \<le> Unix (now env))"
  shows "\<exists>tok. SignedString (SigningMethodHMAC SHA256) (encode_AuthorizationToken c)
                 (Key (ServiceProvider s)) = Inr tok \<and>
               parse_session s env tok = Inr c \<and>
               (Audience c = EntityID (ServiceProvider s) \<longrightarrow>
                  GetAuthorizationToken s env (r\<lparr>token_cookie := tok\<rparr>) = Some c)"
proof -
  let ?tok = "hmac_token SHA256 (Key (ServiceProvider s)) (encode_AuthorizationToken c)"
  have v: "StandardClaims_Valid (Unix (now env)) c = {}"
    using assms by (simp add: StandardClaims_Valid_empty)
  have p: "parse_session s env ?tok = Inr c"
    using v by (simp add: parse_session_hmac_token)
  have g: "GetAuthorizationToken s env (r\<lparr>token_cookie := ?tok\<rparr>) = Some c"
    if "Audience c = EntityID (ServiceProvider s)"
    using that v unfolding GetAuthorizationToken_Some
    by (simp add: GetToken_def hmac_token_def token_signature_valid_hmac_token
        decode_encode_AuthorizationToken)
  show ?thesis using p g by (simp add: SignedString_HMAC)
qed

lemma example_session_claims:
  "session_claims example_plugin example_env example_assertion = example_claims"
  by (simp add: session_claims_def example_plugin_def example_provider_def example_env_def
      example_assertion_def example_claims_def Unix_def statement_attributes_def
      add_attribute_def append_value_def index_map_def claimName_def)

theorem sign_verify_round_trip_witness:
  "SignedString (SigningMethodHMAC SHA256) (encode_AuthorizationToken example_claims) ''service-key''
     = Inr (hmac_token SHA256 ''service-key'' (encode_AuthorizationToken example_claims)) \<and>
   parse_session example_plugin example_env
     (hmac_token SHA256 ''service-key'' (encode_AuthorizationToken example_claims)) = Inr example_claims \<and>
   GetAuthorizationToken example_plugin example_env
     (example_request\<lparr>token_cookie :=
        hmac_token SHA256 ''service-key'' (encode_AuthorizationToken example_claims)\<rparr>) = Some example_claims"
  using sign_verify_round_trip [of example_claims example_env example_plugin example_request]
  by (simp add: example_projections SignedString_HMAC example_claims_def)

text \<open>
  The token that \<^verbatim>\<open>Authorize\<close> issues at one time is accepted at every later time up to
  its expiry.
\<close>

lemma Authorize_issues_token:
  assumes "Authorize s env0 w r a = Returned w'" and "w_status w = None"
    and "w_status w' = Some StatusFound"
  shows "SetTokenCookie (hmac_token SHA256 (Key (ServiceProvider s))
           (encode_AuthorizationToken (session_claims s env0 a))) (TokenMaxAge s) \<in> set (w_cookies w')"
  using assms
  by (auto simp: Authorize_def consume_relay_state_def SignedString_HMAC Let_def http_Redirect_def
      SetToken_def DeleteState_def add_cookie_def WriteHeader_def Header_Set_def http_Error_def Write_def
      StatusFound_def StatusForbidden_def
      split: if_splits sum.splits option.splits json.splits prod.splits)

lemma issued_token_accepted:
  assumes "Unix (now env0) \<le> Unix (now env)" and "Unix (now env) \<le> Unix (now env0 + TokenMaxAge s)"
  shows "GetAuthorizationToken s env
           (r\<lparr>token_cookie := hmac_token SHA256 (Key (ServiceProvider s))
                 (encode_AuthorizationToken (session_claims s env0 a))\<rparr>) = Some (session_claims s env0 a)"
proof -
  have v: "StandardClaims_Valid (Unix (now env)) (session_claims s env0 a) = {}"
    using assms by (simp add: StandardClaims_Valid_empty session_claims_def)
  show ?thesis
    unfolding GetAuthorizationToken_Some using v
    by (simp add: GetToken_def hmac_token_def token_signature_valid_hmac_token
        decode_encode_AuthorizationToken) (simp add: session_claims_def)
qed

section \<open>The attributes of the session token\<close>










section \<open>Consuming the relay state\<close>

lemma http_Error_fresh:
  "w_status w = None \<Longrightarrow>
   w_status (http_Error w msg code) = Some code \<and> w_cookies (http_Error w msg code) = w_cookies w"
  by (simp add: http_Error_def Write_def WriteHeader_def Header_Set_def Let_def)

lemma consume_relay_state_absent:
  "Form_RelayState r \<noteq> [] \<Longrightarrow> map_of (state_cookies r) (Form_RelayState r) = None \<Longrightarrow>
   consume_relay_state s env w r =
     Inl (Returned (http_Error w (StatusText StatusForbidden) StatusForbidden))"
  by (simp add: consume_relay_state_def GetState_def Let_def)

lemma consume_relay_state_Inr:
  "consume_relay_state s env w r = Inr (uri, w1) \<Longrightarrow> Form_RelayState r \<noteq> [] \<Longrightarrow>
   w1 = DeleteState w r (Form_RelayState r)"
  by (auto simp: consume_relay_state_def Let_def
      split: if_splits sum.splits option.splits json.splits)

lemma Authorize_success:
  assumes "Authorize s env w r a = Returned w'" and "w_status w = None"
    and "w_status w' = Some StatusFound"
  shows "\<exists>uri w1. consume_relay_state s env w r = Inr (uri, w1) \<and>
           w' = http_Redirect (SetToken w1 r
                  (hmac_token SHA256 (Key (ServiceProvider s))
                     (encode_AuthorizationToken (session_claims s env a))) (TokenMaxAge s))
                  r uri StatusFound"
proof (cases "consume_relay_state s env w r")
  case (Inl out)
  then have "out = Returned w'" using assms(1) by (simp add: Authorize_def)
  with Inl have "w_status w' = Some StatusForbidden"
    using assms(2)
    by (auto simp: consume_relay_state_def Let_def http_Error_fresh
        split: if_splits sum.splits option.splits json.splits)
  with assms(3) show ?thesis by (simp add: StatusFound_def StatusForbidden_def)
next
  case (Inr p)
  then show ?thesis using assms(1)
    by (cases p) (simp add: Authorize_def SignedString_HMAC)
qed

lemma fold_delete_last:
  "map_of (fold apply_instruction (ops @ [DeleteStateCookie k, SetTokenCookie v m]) jar) k = None"
  by (simp add: delete_conv)

text \<open>
  Claim C1. When \<^verbatim>\<open>Authorize\<close> succeeds (status 302) for a request that names a relay
  identifier, the instruction to delete that relay state is among the cookie instructions
  of the response, before the instruction that sets the session token; both were
  written before the status, since later ones do not count. In the relay states that the
  browser holds after the response, the identifier has no value, and the same callback
  delivered again with those relay states is answered with 403 and with no cookie
  instruction, so no session token is issued.
\<close>

theorem relay_state_consumed_once:
  assumes "Authorize s env w r a = Returned w'"
    and "w_status w = None" and "w_status w' = Some StatusFound"
    and "Form_RelayState r \<noteq> []"
    and "w_status w2 = None"
  shows "(\<exists>tok. w_cookies w' =
            w_cookies w @ [DeleteStateCookie (Form_RelayState r), SetTokenCookie tok (TokenMaxAge s)]) \<and>
         map_of (client_states_after w' (state_cookies r)) (Form_RelayState r) = None \<and>
         (\<exists>w2'. Authorize s env2 w2 (r\<lparr>state_cookies := client_states_after w' (state_cookies r)\<rparr>) a2
                   = Returned w2' \<and>
                 w_status w2' = Some StatusForbidden \<and> w_cookies w2' = w_cookies w2)"
proof -
  let ?tok = "hmac_token SHA256 (Key (ServiceProvider s)) (encode_AuthorizationToken (session_claims s env a))"
  obtain uri w1 where c: "consume_relay_state s env w r = Inr (uri, w1)"
    and w': "w' = http_Redirect (SetToken w1 r ?tok (TokenMaxAge s)) r uri StatusFound"
    using Authorize_success [OF assms(1-3)] by blast
  have w1: "w1 = DeleteState w r (Form_RelayState r)"
    using consume_relay_state_Inr [OF c assms(4)] .
  have cookies: "w_cookies w' =
      w_cookies w @ [DeleteStateCookie (Form_RelayState r), SetTokenCookie ?tok (TokenMaxAge s)]"
    using assms(2)
    by (simp add: w' w1 http_Redirect_def SetToken_def DeleteState_def add_cookie_def
        WriteHeader_def Header_Set_def)
  have gone: "map_of (client_states_after w' (state_cookies r)) (Form_RelayState r) = None"
    unfolding client_states_after_def cookies by (rule fold_delete_last)
  let ?r2 = "r\<lparr>state_cookies := client_states_after w' (state_cookies r)\<rparr>"
  have "consume_relay_state s env2 w2 ?r2 =
      Inl (Returned (http_Error w2 (StatusText StatusForbidden) StatusForbidden))"
    using assms(4) gone by (intro consume_relay_state_absent) simp_all
  then have "Authorize s env2 w2 ?r2 a2 =
      Returned (http_Error w2 (StatusText StatusForbidden) StatusForbidden)"
    by (simp add: Authorize_def)
  with http_Error_fresh [OF assms(5)] cookies gone show ?thesis by blast
qed

lemma example_settings:
  "TokenMaxAge example_plugin = 3600000000000"
  "AllowIDPInitiated example_plugin = False"
  "Map example_plugin = [(''/private'', [''role'', ''admin''])]"
  "next_handler example_plugin = (\<lambda>w r. (Write ''downstream page'' w, 200, None))"
  "fresh_relay_state example_env = Some ''cmVsYXktc3RhdGU''"
  by (simp_all add: example_plugin_def example_env_def)

lemma example_callback:
  "Authorize example_plugin example_env new_response callback_request example_assertion
     = Returned callback_response"
  by (simp add: Authorize_def consume_relay_state_def callback_request_def GetState_def
      parse_state_def ParseWithClaims_def hmac_token_def token_header_def jwtSigningMethod_def
      GetSigningMethod_def MapClaims_Valid_def time_flags_def example_relay_claims_def
      example_projections SignedString_HMAC example_session_claims callback_response_def
      http_Redirect_def SetToken_def DeleteState_def add_cookie_def WriteHeader_def Header_Set_def
      new_response_def StatusFound_def example_settings Let_def)

theorem relay_state_consumed_once_witness:
  "Authorize example_plugin example_env new_response callback_request example_assertion
     = Returned callback_response \<and>
   map_of (client_states_after callback_response (state_cookies callback_request)) ''cmVsYXktc3RhdGU'' = None \<and>
   (\<exists>w2'. Authorize example_plugin example_env new_response
             (callback_request\<lparr>state_cookies :=
                client_states_after callback_response (state_cookies callback_request)\<rparr>)
             example_assertion = Returned w2' \<and>
           w_status w2' = Some 403 \<and> w_cookies w2' = [])"
proof -
  have s1: "w_status new_response = None" by (simp add: new_response_def)
  have s2: "w_status callback_response = Some StatusFound"
    by (simp add: callback_response_def StatusFound_def)
  have s3: "Form_RelayState callback_request \<noteq> []" by (simp add: callback_request_def)
  show ?thesis
    using relay_state_consumed_once [OF example_callback s1 s2 s3 s1,
        of example_env example_assertion] example_callback
    by (simp add: callback_request_def new_response_def StatusForbidden_def)
qed

end
